theory Spec2Isabelle
  imports Main
begin

section \<open>JavaScript values, objects and calls\<close>

text \<open>
  The state machine of \<^verbatim>\<open>src/index.js\<close> treats its states as opaque JavaScript values. It
  does three things with them: it tests them for truthiness, it compares them with
  \<^verbatim>\<open>!==\<close>, and it reads and calls members of them. The values below are what these
  three operations can tell apart. Numbers are kept as integers together with \<^verbatim>\<open>NaN\<close>,
  the one value that is not identical to itself; objects (functions included) are
  references, identified by their address. \<open>JArr xs\<close> is the array that line 29 builds
  from the forwarded arguments; it is kept by its elements.
\<close>

datatype val =
    JNull
  | JUndefined
  | JBool bool
  | JNum int
  | JNaN
  | JStr string
  | JObj nat
  | JArr "val list"

text \<open>\<^verbatim>\<open>ToBoolean\<close>: what \<^verbatim>\<open>x && ...\<close> and \<^verbatim>\<open>x ? ... : ...\<close> test.\<close>

fun truthy :: "val \<Rightarrow> bool" where
  "truthy JNull = False"
| "truthy JUndefined = False"
| "truthy (JBool b) = b"
| "truthy (JNum n) = (n \<noteq> 0)"
| "truthy JNaN = False"
| "truthy (JStr s) = (s \<noteq> [])"
| "truthy (JObj a) = True"
| "truthy (JArr xs) = True"

text \<open>Strict equality \<^verbatim>\<open>===\<close> and its negation \<^verbatim>\<open>!==\<close>.\<close>

definition strict_eq :: "val \<Rightarrow> val \<Rightarrow> bool" where
  "strict_eq x y = (if x = JNaN then False else x = y)"

definition strict_neq :: "val \<Rightarrow> val \<Rightarrow> bool" where
  "strict_neq x y = (\<not> strict_eq x y)"

text \<open>
  A thrown exception is either the \<^verbatim>\<open>TypeError\<close> that the language raises itself (member
  access on \<^verbatim>\<open>null\<close> or \<^verbatim>\<open>undefined\<close>, calling something that is not a function) or a
  value thrown by user code.
\<close>

datatype exn = TypeError | Thrown val

text \<open>
  The object heap gives every object its member table: \<open>h a k\<close> is what the lookup
  \<^verbatim>\<open>o[k]\<close> finds on the object at address \<open>a\<close>, own or inherited, and \<open>None\<close> when the object
  has no such member. Members are data properties (reading one runs no code). The one
  member that the machine reads from a function, \<^verbatim>\<open>apply\<close>, is listed only when the
  function carries an \<^verbatim>\<open>apply\<close> of its own; without an entry the lookup finds the
  built-in \<^verbatim>\<open>Function.prototype.apply\<close>.
\<close>

type_synonym heap = "nat \<Rightarrow> string \<rightharpoonup> val"

text \<open>
  A function written by the user of the library (a hook, an event handler, a reducer)
  is an arbitrary computation over the object heap: it takes its receiver \<^verbatim>\<open>this\<close> and its
  arguments, may change any object, and either returns a value or throws. The variable
  \<^verbatim>\<open>currentState\<close> is local to \<^verbatim>\<open>createStateMachine\<close>, so such a function cannot read or
  write it; it could only reach it by calling \<^verbatim>\<open>handle\<close> or \<^verbatim>\<open>invoke\<close> of the same
  machine again while a transition is running, which the specification (section 5)
  leaves to the caller to avoid. Re-entrant calls are not part of this model.
\<close>

type_synonym behaviour = "val \<Rightarrow> val list \<Rightarrow> heap \<Rightarrow> (exn + val) \<times> heap"

text \<open>The function objects of the program: address to behaviour.\<close>

type_synonym funs = "nat \<rightharpoonup> behaviour"

text \<open>
  The machine's code makes two kinds of steps that the claims order in time: calling a
  function and assigning \<^verbatim>\<open>currentState\<close>. The world keeps, next to the heap, the trace
  of these steps in the order in which they happen. \<open>Call f this args\<close> is a call of
  the function \<open>f\<close> with receiver \<open>this\<close>; \<open>Assign v\<close> is \<^verbatim>\<open>currentState = v\<close>.
\<close>

datatype event = Call val val "val list" | Assign val

record world =
  objects :: heap
  trace :: "event list"

text \<open>Member lookup \<^verbatim>\<open>v[k]\<close> on a value that is neither \<^verbatim>\<open>null\<close> nor \<^verbatim>\<open>undefined\<close>:
  an absent member reads as \<^verbatim>\<open>undefined\<close>. Only objects carry members here: what a
  number, a string or an array inherits from its prototype (\<^verbatim>\<open>toString\<close>, \<^verbatim>\<open>length\<close>) is
  left out.\<close>

definition member :: "world \<Rightarrow> val \<Rightarrow> string \<Rightarrow> val" where
  "member w v k =
     (case v of
        JObj a \<Rightarrow> (case objects w a k of None \<Rightarrow> JUndefined | Some x \<Rightarrow> x)
      | _ \<Rightarrow> JUndefined)"

text \<open>Member lookup \<^verbatim>\<open>v[k]\<close> on any value: it throws on \<^verbatim>\<open>null\<close> and \<^verbatim>\<open>undefined\<close>.\<close>

definition get :: "world \<Rightarrow> val \<Rightarrow> string \<Rightarrow> exn + val" where
  "get w v k =
     (if v = JNull then Inl TypeError
      else if v = JUndefined then Inl TypeError
      else Inr (member w v k))"

text \<open>
  A call of the value \<open>f\<close> with receiver \<open>this\<close> and arguments \<open>args\<close>. Calling a value that
  is not a function throws a \<^verbatim>\<open>TypeError\<close> and calls nothing. Otherwise the call is
  recorded and the function's behaviour runs on the heap; what it returns or throws is
  the outcome of the call.
\<close>

definition call :: "funs \<Rightarrow> val \<Rightarrow> val \<Rightarrow> val list \<Rightarrow> world \<Rightarrow> (exn + val) \<times> world" where
  "call F f this args w =
     (case f of
        JObj a \<Rightarrow>
          (case F a of
             None \<Rightarrow> (Inl TypeError, w)
           | Some b \<Rightarrow>
               (case b this args (objects w) of
                  (r, h) \<Rightarrow> (r, \<lparr>objects = h, trace = trace w @ [Call f this args]\<rparr>)))
      | _ \<Rightarrow> (Inl TypeError, w))"

section \<open>The state machine\<close>

text \<open>The private variable of one machine (\<^verbatim>\<open>var currentState\<close>, line 4).\<close>

record machine =
  currentState :: val

text \<open>
  A reducer takes the current state and computes the next one; like every call it may
  throw and may change the world.
\<close>

type_synonym reducer = "val \<Rightarrow> world \<Rightarrow> (exn + val) \<times> world"

text \<open>
  The statement \<^verbatim>\<open>if (s && s.name) { s.name() }\<close> of lines 10-12 (with \<^verbatim>\<open>name\<close> =
  \<^verbatim>\<open>exit\<close>) and of lines 14-16 (with \<^verbatim>\<open>name\<close> = \<^verbatim>\<open>entry\<close>), where \<open>s\<close> is the value
  of \<^verbatim>\<open>currentState\<close> when the statement runs. The hook is called with \<open>s\<close> as receiver
  and no arguments.
\<close>

definition call_hook :: "funs \<Rightarrow> string \<Rightarrow> val \<Rightarrow> world \<Rightarrow> (exn + val) \<times> world" where
  "call_hook F name s w =
     (if truthy s \<and> truthy (member w s name)
      then call F (member w s name) s [] w
      else (Inr JUndefined, w))"

text \<open>The assignment \<^verbatim>\<open>currentState = nextState\<close> of line 13, as seen in the trace.\<close>

definition assigned :: "val \<Rightarrow> world \<Rightarrow> world" where
  "assigned v w = w\<lparr>trace := trace w @ [Assign v]\<rparr>"

text \<open>
  \<^verbatim>\<open>handle\<close> (lines 6-18). The result is the outcome of the call (\<^verbatim>\<open>handle\<close> returns
  \<^verbatim>\<open>undefined\<close> when nothing throws), the machine and the world after it. Nothing is
  caught: the first exception ends the call with the machine as it is at that moment.
\<close>

definition handle :: "funs \<Rightarrow> reducer \<Rightarrow> machine \<Rightarrow> world \<Rightarrow> (exn + val) \<times> machine \<times> world" where
  "handle F reducer m w =
     (case reducer (currentState m) w of
        (Inl e, w1) \<Rightarrow> (Inl e, m, w1)
      | (Inr nextState, w1) \<Rightarrow>
          if strict_neq nextState (currentState m) then
            (case call_hook F ''exit'' (currentState m) w1 of
               (Inl e, w2) \<Rightarrow> (Inl e, m, w2)
             | (Inr _, w2) \<Rightarrow>
                 (case call_hook F ''entry'' nextState (assigned nextState w2) of
                    (Inl e, w3) \<Rightarrow> (Inl e, m\<lparr>currentState := nextState\<rparr>, w3)
                  | (Inr _, w3) \<Rightarrow> (Inr JUndefined, m\<lparr>currentState := nextState\<rparr>, w3)))
          else (Inr JUndefined, m, w1))"

text \<open>
  \<^verbatim>\<open>createStateMachine\<close> (lines 2-35): \<^verbatim>\<open>currentState\<close> starts as \<^verbatim>\<open>null\<close>, then
  \<^verbatim>\<open>handle\<close> runs once with the reducer \<^verbatim>\<open>function () { return initialState }\<close>. When
  that call throws, so does the construction and no machine is returned. (Line 24 clears
  the parameter \<^verbatim>\<open>initialState\<close>, which nothing reads afterwards.)
\<close>

definition createStateMachine :: "funs \<Rightarrow> val \<Rightarrow> world \<Rightarrow> (exn + machine) \<times> world" where
  "createStateMachine F initialState w =
     (case handle F (\<lambda>_ w'. (Inr initialState, w')) \<lparr>currentState = JNull\<rparr> w of
        (Inl e, m, w1) \<Rightarrow> (Inl e, w1)
      | (Inr _, m, w1) \<Rightarrow> (Inr m, w1))"

text \<open>
  The expression \<^verbatim>\<open>f.apply(this, args)\<close> of line 31. It reads the member \<^verbatim>\<open>apply\<close> of the
  value \<open>f\<close> and calls what it finds, with \<open>f\<close> as receiver and two arguments: \<open>this\<close> and
  the array of the forwarded arguments. For a function without an \<^verbatim>\<open>apply\<close> of its own,
  what it finds is the built-in \<^verbatim>\<open>Function.prototype.apply\<close>, which calls \<open>f\<close> itself with
  receiver \<open>this\<close> and the forwarded arguments. An object that is not a function and has
  no \<^verbatim>\<open>apply\<close>, and every value that is not an object, has nothing to call there: a
  \<^verbatim>\<open>TypeError\<close>.
\<close>

definition call_apply :: "funs \<Rightarrow> val \<Rightarrow> val \<Rightarrow> val list \<Rightarrow> world \<Rightarrow> (exn + val) \<times> world" where
  "call_apply F f this args w =
     (case f of
        JObj a \<Rightarrow>
          (case objects w a ''apply'' of
             None \<Rightarrow> call F f this args w
           | Some g \<Rightarrow> call F g f [this, JArr args] w)
      | _ \<Rightarrow> (Inl TypeError, w))"

text \<open>
  The reducer that \<^verbatim>\<open>invoke\<close> builds (line 31):
  \<^verbatim>\<open>state[eventName] ? state[eventName].apply(state, args) : state\<close>.
\<close>

definition dispatch :: "funs \<Rightarrow> string \<Rightarrow> val list \<Rightarrow> reducer" where
  "dispatch F eventName args state w =
     (case get w state eventName of
        Inl e \<Rightarrow> (Inl e, w)
      | Inr f \<Rightarrow> if truthy f then call_apply F f state args w else (Inr state, w))"

text \<open>\<^verbatim>\<open>invoke\<close> (lines 28-33), called as a method of the machine it belongs to.\<close>

definition invoke :: "funs \<Rightarrow> string \<Rightarrow> val list \<Rightarrow> machine \<Rightarrow> world \<Rightarrow> (exn + val) \<times> machine \<times> world" where
  "invoke F eventName args m w = handle F (dispatch F eventName args) m w"

section \<open>Clients of a machine\<close>

text \<open>
  The caller of \<^verbatim>\<open>handle(reducer)\<close> passes a JavaScript value; line 8 calls it with the
  current state as its only argument (and no receiver).
\<close>

definition external :: "funs \<Rightarrow> val \<Rightarrow> reducer" where
  "external F f state w = call F f JUndefined [state] w"

text \<open>What the owner of a machine can do with it: the two methods of the returned object.\<close>

datatype op = Handle val | Invoke string "val list"

fun op_reducer :: "funs \<Rightarrow> op \<Rightarrow> reducer" where
  "op_reducer F (Handle f) = external F f"
| "op_reducer F (Invoke eventName args) = dispatch F eventName args"

fun step :: "funs \<Rightarrow> op \<Rightarrow> machine \<Rightarrow> world \<Rightarrow> (exn + val) \<times> machine \<times> world" where
  "step F (Handle f) m w = handle F (external F f) m w"
| "step F (Invoke eventName args) m w = invoke F eventName args m w"

text \<open>
  A client session: the operations run one after the other. An operation that throws
  does not end the session (the client may catch the exception and go on); the machine
  is left as the failed call left it.
\<close>

fun run :: "funs \<Rightarrow> op list \<Rightarrow> machine \<Rightarrow> world \<Rightarrow> machine \<times> world" where
  "run F [] m w = (m, w)"
| "run F (x # xs) m w = (case step F x m w of (r, m', w') \<Rightarrow> run F xs m' w')"

text \<open>The values that the reducers of a session return, in order.\<close>

fun returned :: "funs \<Rightarrow> op list \<Rightarrow> machine \<Rightarrow> world \<Rightarrow> val list" where
  "returned F [] m w = []"
| "returned F (x # xs) m w =
     (case op_reducer F x (currentState m) w of
        (Inl e, w1) \<Rightarrow> []
      | (Inr v, w1) \<Rightarrow> [v])
     @ (case step F x m w of (r, m', w') \<Rightarrow> returned F xs m' w')"

text \<open>The calls among the steps of a trace.\<close>

fun is_call :: "event \<Rightarrow> bool" where
  "is_call (Call f this args) = True"
| "is_call (Assign v) = False"

definition calls :: "event list \<Rightarrow> event list" where
  "calls tr = filter is_call tr"

section \<open>A toggle machine\<close>

text \<open>
  The scenario of the specification (section 8): two states \<^verbatim>\<open>On\<close> (object 1, with
  \<^verbatim>\<open>entry\<close>, \<^verbatim>\<open>exit\<close> and \<^verbatim>\<open>toggle\<close>) and \<^verbatim>\<open>Off\<close> (object 2, with \<^verbatim>\<open>entry\<close> and
  \<^verbatim>\<open>toggle\<close>). Each hook sets a flag of its own on object 0; \<^verbatim>\<open>toggle\<close> returns the other
  state. Function 15 throws: it is the \<^verbatim>\<open>entry\<close> hook of object 3 and the \<^verbatim>\<open>exit\<close> hook of
  object 4.
\<close>

definition mark :: "string \<Rightarrow> behaviour" where
  "mark k this args h = (Inr JUndefined, h(0 := (h 0)(k \<mapsto> JBool True)))"

definition go :: "val \<Rightarrow> behaviour" where
  "go v this args h = (Inr v, h)"

definition fail :: behaviour where
  "fail this args h = (Inl (Thrown (JStr ''boom'')), h)"

definition example_heap :: heap where
  "example_heap =
     (\<lambda>a. Map.empty)
       (1 := [''entry'' \<mapsto> JObj 10, ''exit'' \<mapsto> JObj 11, ''toggle'' \<mapsto> JObj 12],
        2 := [''entry'' \<mapsto> JObj 13, ''toggle'' \<mapsto> JObj 14],
        3 := [''entry'' \<mapsto> JObj 15],
        4 := [''exit'' \<mapsto> JObj 15])"

definition example_funs :: funs where
  "example_funs =
     [10 \<mapsto> mark ''onEntry'', 11 \<mapsto> mark ''onExit'', 12 \<mapsto> go (JObj 2),
      13 \<mapsto> mark ''offEntry'', 14 \<mapsto> go (JObj 1), 15 \<mapsto> fail]"

definition example_world :: world where
  "example_world = \<lparr>objects = example_heap, trace = []\<rparr>"

section \<open>A message buffer\<close>

text \<open>
  Two states without hooks, after the example of the README: \<^verbatim>\<open>disconnected\<close> (object 5)
  and \<^verbatim>\<open>connected\<close> (object 6). The handler \<^verbatim>\<open>connect\<close> of object 5 is function 20,
  which returns object 6. Object 7 is a \<^verbatim>\<open>disconnected\<close> state whose handler, function
  22, also returns object 6 but carries an \<^verbatim>\<open>apply\<close> member of its own: function 21,
  which returns object 7.
\<close>

definition buffer_heap :: heap where
  "buffer_heap =
     (\<lambda>a. Map.empty)
       (5 := [''connect'' \<mapsto> JObj 20],
        7 := [''connect'' \<mapsto> JObj 22],
        22 := [''apply'' \<mapsto> JObj 21])"

definition buffer_funs :: funs where
  "buffer_funs = [20 \<mapsto> go (JObj 6), 21 \<mapsto> go (JObj 7), 22 \<mapsto> go (JObj 6)]"

definition buffer_world :: world where
  "buffer_world = \<lparr>objects = buffer_heap, trace = []\<rparr>"

section \<open>Calls and hooks\<close>

lemma call_function:
  assumes "F a = Some b" and "b this args (objects w) = (r, h)"
  shows "call F (JObj a) this args w =
           (r, \<lparr>objects = h, trace = trace w @ [Call (JObj a) this args]\<rparr>)"
  using assms by (simp add: call_def)

lemma call_hook_function:
  assumes "objects w a name = Some (JObj f)" and "F f = Some b"
    and "b (JObj a) [] (objects w) = (r, h)"
  shows "call_hook F name (JObj a) w =
           (r, \<lparr>objects = h, trace = trace w @ [Call (JObj f) (JObj a) []]\<rparr>)"
  using assms by (simp add: call_hook_def member_def call_function)

section \<open>Transitions\<close>

text \<open>
  Claim C1. A call of \<^verbatim>\<open>handle\<close> whose reducer returns a state \<open>nextState\<close> that is not
  identical to the current one, where the current state is an object with a function
  \<^verbatim>\<open>exit\<close> (that returns) and \<open>nextState\<close> is an object with a function \<^verbatim>\<open>entry\<close>, makes
  exactly three steps after the reducer, in this order: it calls \<^verbatim>\<open>exit\<close> on the old
  state, it assigns \<open>nextState\<close> to \<^verbatim>\<open>currentState\<close>, it calls \<^verbatim>\<open>entry\<close> on the new state.
  The receiver of each hook is the value of \<^verbatim>\<open>currentState\<close> at the time of its call:
  the old state for \<^verbatim>\<open>exit\<close>, the new state for \<^verbatim>\<open>entry\<close>. The \<^verbatim>\<open>entry\<close> hook runs on
  the heap that \<^verbatim>\<open>exit\<close> left, and the machine ends in \<open>nextState\<close>.
\<close>

theorem handle_hook_order:
  assumes red: "reducer (currentState m) w = (Inr nextState, w1)"
    and diff: "strict_neq nextState (currentState m)"
    and old: "currentState m = JObj a" "objects w1 a ''exit'' = Some (JObj fx)" "F fx = Some bx"
    and exit_ok: "bx (JObj a) [] (objects w1) = (Inr rx, h2)"
    and new: "nextState = JObj b" "h2 b ''entry'' = Some (JObj fe)" "F fe = Some be"
    and entry_res: "be (JObj b) [] h2 = (re, h3)"
  shows "handle F reducer m w =
           ((case re of Inl e \<Rightarrow> Inl e | Inr _ \<Rightarrow> Inr JUndefined),
            \<lparr>currentState = nextState\<rparr>,
            \<lparr>objects = h3,
             trace = trace w1 @
               [Call (JObj fx) (JObj a) [], Assign nextState, Call (JObj fe) nextState []]\<rparr>)"
proof -
  let ?w2 = "\<lparr>objects = h2, trace = trace w1 @ [Call (JObj fx) (JObj a) []]\<rparr>"
  have ex: "call_hook F ''exit'' (currentState m) w1 = (Inr rx, ?w2)"
    using old exit_ok by (simp add: call_hook_function)
  have en: "call_hook F ''entry'' nextState (assigned nextState ?w2) =
              (re, \<lparr>objects = h3,
                    trace = trace w1 @
                      [Call (JObj fx) (JObj a) [], Assign nextState, Call (JObj fe) nextState []]\<rparr>)"
    using new entry_res by (simp add: call_hook_function assigned_def)
  show ?thesis
    using red diff ex en by (cases re) (simp_all add: handle_def)
qed

theorem handle_hook_order_witness:
  "handle example_funs (\<lambda>s w. (Inr (JObj 2), w)) \<lparr>currentState = JObj 1\<rparr> example_world =
     (Inr JUndefined, \<lparr>currentState = JObj 2\<rparr>,
      \<lparr>objects = example_heap(0 := [''onExit'' \<mapsto> JBool True, ''offEntry'' \<mapsto> JBool True]),
       trace = [Call (JObj 11) (JObj 1) [], Assign (JObj 2), Call (JObj 13) (JObj 2) []]\<rparr>)"
  using handle_hook_order [of "\<lambda>s w. (Inr (JObj 2), w)" "\<lparr>currentState = JObj 1\<rparr>"
      example_world "JObj 2" example_world
      1 11 example_funs "mark ''onExit''" JUndefined
      "example_heap(0 := [''onExit'' \<mapsto> JBool True])" 2 13 "mark ''offEntry''" "Inr JUndefined"
      "example_heap(0 := [''onExit'' \<mapsto> JBool True, ''offEntry'' \<mapsto> JBool True])"]
  by (simp add: strict_neq_def strict_eq_def example_world_def example_heap_def
      example_funs_def mark_def)



text \<open>
  Claim C3. When the reducer returns a value identical (\<^verbatim>\<open>===\<close>) to the current state,
  \<^verbatim>\<open>handle\<close> does nothing after the reducer: no hook is called, nothing is assigned,
  the machine is unchanged and the world is the one the reducer left.
\<close>

theorem handle_same_state_noop:
  assumes "reducer (currentState m) w = (Inr nextState, w1)"
    and "strict_eq nextState (currentState m)"
  shows "handle F reducer m w = (Inr JUndefined, m, w1)"
  using assms by (simp add: handle_def strict_neq_def)

theorem handle_same_state_noop_witness:
  "handle example_funs (external example_funs (JObj 14)) \<lparr>currentState = JObj 1\<rparr> example_world =
     (Inr JUndefined, \<lparr>currentState = JObj 1\<rparr>,
      \<lparr>objects = example_heap, trace = [Call (JObj 14) JUndefined [JObj 1]]\<rparr>)"
  using handle_same_state_noop [of "external example_funs (JObj 14)" "\<lparr>currentState = JObj 1\<rparr>"
      example_world "JObj 1" "\<lparr>objects = example_heap, trace = [Call (JObj 14) JUndefined [JObj 1]]\<rparr>"
      example_funs]
  by (simp add: external_def call_def example_world_def example_funs_def go_def strict_eq_def)

text \<open>
  Claim C10. When the reducer returns a falsy value that is not identical to the current
  state, the transition goes through without any \<^verbatim>\<open>entry\<close> call: if the old state is
  truthy and has a truthy \<^verbatim>\<open>exit\<close> member, that member is called on the old state, and
  unless this call throws, the falsy value is assigned; otherwise the falsy value is
  assigned at once. No member of the falsy value is read.
\<close>

theorem handle_falsy_next:
  assumes "reducer (currentState m) w = (Inr nextState, w1)"
    and "\<not> truthy nextState"
    and "strict_neq nextState (currentState m)"
  shows "handle F reducer m w =
           (if truthy (currentState m) \<and> truthy (member w1 (currentState m) ''exit'')
            then (case call F (member w1 (currentState m) ''exit'') (currentState m) [] w1 of
                    (Inl e, w2) \<Rightarrow> (Inl e, m, w2)
                  | (Inr v, w2) \<Rightarrow> (Inr JUndefined, \<lparr>currentState = nextState\<rparr>, assigned nextState w2))
            else (Inr JUndefined, \<lparr>currentState = nextState\<rparr>, assigned nextState w1))"
  using assms by (simp add: handle_def call_hook_def split: prod.splits sum.splits)

theorem handle_falsy_next_witness:
  "handle example_funs (\<lambda>s w. (Inr JNull, w)) \<lparr>currentState = JObj 1\<rparr> example_world =
     (Inr JUndefined, \<lparr>currentState = JNull\<rparr>,
      \<lparr>objects = example_heap(0 := [''onExit'' \<mapsto> JBool True]),
       trace = [Call (JObj 11) (JObj 1) [], Assign JNull]\<rparr>)"
  using handle_falsy_next [of "\<lambda>s w. (Inr JNull, w)" "\<lparr>currentState = JObj 1\<rparr>" example_world
      JNull example_world example_funs]
  by (simp add: member_def call_def assigned_def strict_neq_def strict_eq_def
      example_world_def example_heap_def example_funs_def mark_def)

section \<open>Dispatch\<close>

text \<open>
  Claim C4, as stated, says that \<^verbatim>\<open>invoke\<close> calls every callable method that the current
  state has under the name of the event. Line 31 calls the method's member \<^verbatim>\<open>apply\<close>
  instead. For a method that carries an \<^verbatim>\<open>apply\<close> of its own this is another function:
  below, function 22 is the handler and would move the machine to object 6, but
  \<^verbatim>\<open>invoke\<close> calls function 21, with the handler as receiver and the state and the
  array of arguments as arguments; function 22 is never called and the machine stays
  where function 21 sends it.
\<close>

theorem invoke_own_apply_counterexample:
  "objects buffer_world 7 ''connect'' = Some (JObj 22) \<and>
   buffer_funs 22 = Some (go (JObj 6)) \<and>
   invoke buffer_funs ''connect'' [JNum 1] \<lparr>currentState = JObj 7\<rparr> buffer_world =
     (Inr JUndefined, \<lparr>currentState = JObj 7\<rparr>,
      \<lparr>objects = buffer_heap, trace = [Call (JObj 21) (JObj 22) [JObj 7, JArr [JNum 1]]]\<rparr>)"
  by (simp add: invoke_def handle_def dispatch_def get_def member_def call_apply_def call_def
      strict_neq_def strict_eq_def buffer_world_def buffer_heap_def buffer_funs_def go_def)

text \<open>
  Claim C4, amended. When the current state is an object whose member \<open>eventName\<close> is a
  function without an \<^verbatim>\<open>apply\<close> member of its own, \<^verbatim>\<open>invoke\<close> calls that function once,
  with the current state as receiver and the forwarded arguments, and then makes the
  transition of \<^verbatim>\<open>handle\<close> to the value the function returns. If the function throws,
  so does \<^verbatim>\<open>invoke\<close>, with the machine unchanged. If it returns a value identical to the
  current state, nothing more happens. Otherwise the \<^verbatim>\<open>exit\<close> statement runs on the old
  state, the returned value is assigned, and the \<^verbatim>\<open>entry\<close> statement runs on it; the
  machine ends in the returned value unless the \<^verbatim>\<open>exit\<close> statement throws.
\<close>

theorem invoke_dispatch_hit:
  assumes cur: "currentState m = JObj a"
    and hnd: "objects w a eventName = Some (JObj f)" "F f = Some b"
    and std: "objects w f ''apply'' = None"
    and res: "b (JObj a) args (objects w) = (r, h)"
  shows "invoke F eventName args m w =
           (let w1 = \<lparr>objects = h, trace = trace w @ [Call (JObj f) (JObj a) args]\<rparr> in
            case r of
              Inl e \<Rightarrow> (Inl e, m, w1)
            | Inr v \<Rightarrow>
                if strict_neq v (JObj a) then
                  (case call_hook F ''exit'' (JObj a) w1 of
                     (Inl e, w2) \<Rightarrow> (Inl e, m, w2)
                   | (Inr x, w2) \<Rightarrow>
                       (case call_hook F ''entry'' v (assigned v w2) of
                          (Inl e, w3) \<Rightarrow> (Inl e, \<lparr>currentState = v\<rparr>, w3)
                        | (Inr y, w3) \<Rightarrow> (Inr JUndefined, \<lparr>currentState = v\<rparr>, w3)))
                else (Inr JUndefined, m, w1))"
proof -
  have "dispatch F eventName args (currentState m) w =
          (r, \<lparr>objects = h, trace = trace w @ [Call (JObj f) (JObj a) args]\<rparr>)"
    using cur hnd std res
    by (simp add: dispatch_def get_def member_def call_apply_def call_function)
  then show ?thesis
    using cur
    by (cases r) (simp_all add: invoke_def handle_def split: prod.splits sum.splits)
qed

theorem invoke_dispatch_hit_witness:
  "invoke buffer_funs ''connect'' [JNum 1] \<lparr>currentState = JObj 5\<rparr> buffer_world =
     (Inr JUndefined, \<lparr>currentState = JObj 6\<rparr>,
      \<lparr>objects = buffer_heap,
       trace = [Call (JObj 20) (JObj 5) [JNum 1], Assign (JObj 6)]\<rparr>) \<and>
   invoke example_funs ''toggle'' [JNum 7] \<lparr>currentState = JObj 2\<rparr> example_world =
     (Inr JUndefined, \<lparr>currentState = JObj 1\<rparr>,
      \<lparr>objects = example_heap(0 := [''onEntry'' \<mapsto> JBool True]),
       trace = [Call (JObj 14) (JObj 2) [JNum 7], Assign (JObj 1), Call (JObj 10) (JObj 1) []]\<rparr>)"
proof (intro conjI)
  show "invoke buffer_funs ''connect'' [JNum 1] \<lparr>currentState = JObj 5\<rparr> buffer_world =
     (Inr JUndefined, \<lparr>currentState = JObj 6\<rparr>,
      \<lparr>objects = buffer_heap,
       trace = [Call (JObj 20) (JObj 5) [JNum 1], Assign (JObj 6)]\<rparr>)"
    using invoke_dispatch_hit [of "\<lparr>currentState = JObj 5\<rparr>" 5 buffer_world "''connect''" 20
        buffer_funs "go (JObj 6)" "[JNum 1]" "Inr (JObj 6)" buffer_heap]
    by (simp add: call_hook_def member_def assigned_def strict_neq_def strict_eq_def
        buffer_world_def buffer_heap_def buffer_funs_def go_def)
next
  show "invoke example_funs ''toggle'' [JNum 7] \<lparr>currentState = JObj 2\<rparr> example_world =
     (Inr JUndefined, \<lparr>currentState = JObj 1\<rparr>,
      \<lparr>objects = example_heap(0 := [''onEntry'' \<mapsto> JBool True]),
       trace = [Call (JObj 14) (JObj 2) [JNum 7], Assign (JObj 1), Call (JObj 10) (JObj 1) []]\<rparr>)"
    using invoke_dispatch_hit [of "\<lparr>currentState = JObj 2\<rparr>" 2 example_world "''toggle''" 14
        example_funs "go (JObj 1)" "[JNum 7]" "Inr (JObj 1)" example_heap]
    by (simp add: call_hook_def member_def call_def assigned_def strict_neq_def
        strict_eq_def example_world_def example_heap_def example_funs_def go_def mark_def)
qed

text \<open>
  Claim C5. When the lookup of \<open>eventName\<close> on the current state finds nothing (it reads
  \<^verbatim>\<open>undefined\<close>), \<^verbatim>\<open>invoke\<close> returns normally, the machine is unchanged, no object is
  changed and no function is called.
\<close>

theorem invoke_dispatch_miss:
  assumes "get w (currentState m) eventName = Inr JUndefined"
  shows "fst (invoke F eventName args m w) = Inr JUndefined \<and>
         fst (snd (invoke F eventName args m w)) = m \<and>
         objects (snd (snd (invoke F eventName args m w))) = objects w \<and>
         calls (trace (snd (snd (invoke F eventName args m w)))) = calls (trace w)"
proof (cases "strict_eq (currentState m) (currentState m)")
  case True
  with assms show ?thesis
    by (simp add: invoke_def handle_def dispatch_def strict_neq_def)
next
  case False
  then have nan: "currentState m = JNaN"
    by (simp add: strict_eq_def split: if_splits)
  with assms show ?thesis
    by (simp add: invoke_def handle_def dispatch_def strict_neq_def strict_eq_def call_hook_def
        assigned_def calls_def)
qed

theorem invoke_dispatch_miss_witness:
  "invoke example_funs ''missing'' [] \<lparr>currentState = JObj 2\<rparr> example_world =
     (Inr JUndefined, \<lparr>currentState = JObj 2\<rparr>, example_world)"
proof -
  have g: "get example_world (currentState \<lparr>currentState = JObj 2\<rparr>) ''missing'' = Inr JUndefined"
    by (simp add: get_def member_def example_world_def example_heap_def)
  have t: "trace (snd (snd (invoke example_funs ''missing'' [] \<lparr>currentState = JObj 2\<rparr> example_world)))
            = trace example_world"
    by (simp add: invoke_def handle_def dispatch_def get_def member_def strict_neq_def strict_eq_def
        example_world_def example_heap_def)
  show ?thesis
    using invoke_dispatch_miss [OF g, of example_funs "[]"] t
    by (cases "invoke example_funs ''missing'' [] \<lparr>currentState = JObj 2\<rparr> example_world") auto
qed

text \<open>
  Claim C9. When the current state is \<^verbatim>\<open>null\<close> or \<^verbatim>\<open>undefined\<close>, \<^verbatim>\<open>invoke\<close> throws a
  \<^verbatim>\<open>TypeError\<close> (the member lookup of line 31 fails) and leaves the machine and the world
  as they were.
\<close>

theorem invoke_on_null_throws:
  assumes "currentState m = JNull \<or> currentState m = JUndefined"
  shows "invoke F eventName args m w = (Inl TypeError, m, w)"
  using assms by (auto simp add: invoke_def handle_def dispatch_def get_def)

theorem invoke_on_null_throws_witness:
  "invoke example_funs ''toggle'' [] \<lparr>currentState = JNull\<rparr> example_world =
     (Inl TypeError, \<lparr>currentState = JNull\<rparr>, example_world)"
  using invoke_on_null_throws [of "\<lparr>currentState = JNull\<rparr>" example_funs "''toggle''" "[]" example_world]
  by simp

section \<open>Construction\<close>

text \<open>
  Claim C6. Constructing a machine with an initial state that is an object whose member
  \<^verbatim>\<open>entry\<close> is a function makes exactly two steps: it assigns the initial state and
  calls that function once, on the initial state. No \<^verbatim>\<open>exit\<close> hook is called. The
  construction returns the machine when the hook returns and throws when the hook
  throws. The hook that the code calls is the member named \<^verbatim>\<open>entry\<close>.
\<close>

theorem createStateMachine_initial_entry:
  assumes "objects w a ''entry'' = Some (JObj f)" and "F f = Some b"
    and "b (JObj a) [] (objects w) = (r, h)"
  shows "createStateMachine F (JObj a) w =
           ((case r of Inl e \<Rightarrow> Inl e | Inr v \<Rightarrow> Inr \<lparr>currentState = JObj a\<rparr>),
            \<lparr>objects = h, trace = trace w @ [Assign (JObj a), Call (JObj f) (JObj a) []]\<rparr>)"
proof -
  have "call_hook F ''entry'' (JObj a) (assigned (JObj a) w) =
          (r, \<lparr>objects = h, trace = trace w @ [Assign (JObj a), Call (JObj f) (JObj a) []]\<rparr>)"
    using assms by (simp add: call_hook_function assigned_def)
  then show ?thesis
    by (cases r) (simp_all add: createStateMachine_def handle_def call_hook_def strict_neq_def strict_eq_def)
qed

theorem createStateMachine_initial_entry_witness:
  "createStateMachine example_funs (JObj 2) example_world =
     (Inr \<lparr>currentState = JObj 2\<rparr>,
      \<lparr>objects = example_heap(0 := [''offEntry'' \<mapsto> JBool True]),
       trace = [Assign (JObj 2), Call (JObj 13) (JObj 2) []]\<rparr>)"
  using createStateMachine_initial_entry [of example_world 2 13 example_funs "mark ''offEntry''"
      "Inr JUndefined" "example_heap(0 := [''offEntry'' \<mapsto> JBool True])"]
  by (simp add: example_world_def example_heap_def example_funs_def mark_def)

text \<open>
  Claim C7, as stated, says that the identity check of line 9 fires for every initial
  state, \<^verbatim>\<open>null\<close> included. For \<^verbatim>\<open>null\<close> it does not: \<^verbatim>\<open>null !== null\<close> is false, nothing
  is assigned and the world is untouched.
\<close>

theorem createStateMachine_null_counterexample:
  "strict_neq JNull (currentState \<lparr>currentState = JNull\<rparr>) = False \<and>
   createStateMachine example_funs JNull example_world = (Inr \<lparr>currentState = JNull\<rparr>, example_world) \<and>
   trace (snd (createStateMachine example_funs JNull example_world)) = []"
  by (simp add: createStateMachine_def handle_def strict_neq_def strict_eq_def example_world_def)

text \<open>
  Claim C7, amended. \<^verbatim>\<open>createStateMachine\<close> starts from \<^verbatim>\<open>null\<close> and calls \<^verbatim>\<open>handle\<close>
  once with a reducer that returns the initial state. For every initial state other
  than \<^verbatim>\<open>null\<close> (\<^verbatim>\<open>undefined\<close> included) the check fires: the initial state is assigned
  and the \<^verbatim>\<open>entry\<close> statement runs on it, as in any transition. For \<^verbatim>\<open>null\<close> the check
  is false and the call does nothing; the state stays \<^verbatim>\<open>null\<close>.
\<close>

theorem createStateMachine_initial_transition:
  "createStateMachine F initialState w =
     (if initialState = JNull then (Inr \<lparr>currentState = JNull\<rparr>, w)
      else (case call_hook F ''entry'' initialState (assigned initialState w) of
              (Inl e, w1) \<Rightarrow> (Inl e, w1)
            | (Inr v, w1) \<Rightarrow> (Inr \<lparr>currentState = initialState\<rparr>, w1)))"
  by (simp add: createStateMachine_def handle_def call_hook_def strict_neq_def strict_eq_def
      split: prod.splits sum.splits)

theorem createStateMachine_initial_transition_witness:
  "createStateMachine example_funs JUndefined example_world =
     (Inr \<lparr>currentState = JUndefined\<rparr>, \<lparr>objects = example_heap, trace = [Assign JUndefined]\<rparr>)"
  using createStateMachine_initial_transition [of example_funs JUndefined example_world]
  by (simp add: call_hook_def assigned_def example_world_def)

section \<open>Where the current state comes from\<close>

text \<open>
  The variable \<^verbatim>\<open>currentState\<close> is written in one place, line 13 of \<^verbatim>\<open>handle\<close>, and the
  value written there is the one the reducer has just returned. Both operations of a
  machine are calls of \<^verbatim>\<open>handle\<close>.
\<close>

lemma handle_currentState:
  "currentState (fst (snd (handle F reducer m w))) = currentState m \<or>
   fst (reducer (currentState m) w) = Inr (currentState (fst (snd (handle F reducer m w))))"
  by (simp add: handle_def split: prod.splits sum.splits)

lemma step_is_handle: "step F x m w = handle F (op_reducer F x) m w"
  by (cases x) (simp_all add: invoke_def)

lemma returned_single:
  "set (returned F [x] m w) =
     (case fst (op_reducer F x (currentState m) w) of Inl e \<Rightarrow> {} | Inr v \<Rightarrow> {v})"
proof (cases "op_reducer F x (currentState m) w")
  case (Pair r w1)
  then show ?thesis
    by (cases r; cases "step F x m w") simp_all
qed

lemma step_currentState:
  "currentState (fst (snd (step F x m w))) \<in>
     insert (currentState m) (set (returned F [x] m w))"
  using handle_currentState [of F "op_reducer F x" m w]
  unfolding returned_single step_is_handle
  by (cases "fst (op_reducer F x (currentState m) w)") auto

lemma returned_Cons:
  "set (returned F (x # xs) m w) =
     set (returned F [x] m w) \<union>
     set (returned F xs (fst (snd (step F x m w))) (snd (snd (step F x m w))))"
proof (cases "op_reducer F x (currentState m) w")
  case (Pair r w1)
  then show ?thesis
    by (cases r; cases "step F x m w") simp_all
qed

lemma run_Cons:
  "run F (x # xs) m w = run F xs (fst (snd (step F x m w))) (snd (snd (step F x m w)))"
  by (simp split: prod.splits)

lemma run_currentState:
  "currentState (fst (run F xs m w)) \<in> insert (currentState m) (set (returned F xs m w))"
proof (induction xs arbitrary: m w)
  case Nil
  show ?case by simp
next
  case (Cons x xs)
  let ?m = "fst (snd (step F x m w))" and ?w = "snd (snd (step F x m w))"
  have later: "currentState (fst (run F xs ?m ?w)) \<in>
      insert (currentState ?m) (set (returned F xs ?m ?w))"
    by (rule Cons.IH)
  have first: "currentState ?m \<in> insert (currentState m) (set (returned F [x] m w))"
    by (rule step_currentState)
  have eq: "set (returned F (x # xs) m w) =
      set (returned F [x] m w) \<union> set (returned F xs ?m ?w)"
    by (rule returned_Cons)
  have "currentState (fst (run F xs ?m ?w)) \<in>
      insert (currentState m) (set (returned F [x] m w) \<union> set (returned F xs ?m ?w))"
    using later first by (simp only: insert_iff Un_iff) metis
  then show ?case
    by (simp only: run_Cons eq)
qed

lemma createStateMachine_state:
  assumes "createStateMachine F initialState w = (Inr m0, w0)"
  shows "currentState m0 = initialState"
  using assms
  by (auto simp add: createStateMachine_def handle_def strict_neq_def strict_eq_def
      split: prod.splits sum.splits if_splits)

lemma toggle_start:
  "createStateMachine example_funs (JObj 2) example_world =
     (Inr \<lparr>currentState = JObj 2\<rparr>,
      \<lparr>objects = example_heap(0 := [''offEntry'' \<mapsto> JBool True]),
       trace = [Assign (JObj 2), Call (JObj 13) (JObj 2) []]\<rparr>)"
  by (simp add: createStateMachine_def handle_def call_hook_def member_def call_def assigned_def
      strict_neq_def strict_eq_def example_world_def example_heap_def example_funs_def mark_def)

text \<open>
  Claim C8. At every point of a client session on a machine built by
  \<^verbatim>\<open>createStateMachine\<close>, the current state is \<^verbatim>\<open>null\<close>, the initial state, or a value
  returned by the reducer of an earlier operation of the session (for \<^verbatim>\<open>invoke\<close>: the
  value returned by the event handler, or the state itself when there is no handler).
  The session is any list of operations, so the statement covers every point between
  two operations; every operation changes the state through \<^verbatim>\<open>handle\<close> only.
\<close>

theorem currentState_provenance:
  assumes "createStateMachine F initialState w = (Inr m0, w0)"
  shows "currentState (fst (run F xs m0 w0)) \<in>
           {JNull, initialState} \<union> set (returned F xs m0 w0)"
  using run_currentState [of F xs m0 w0] createStateMachine_state [OF assms] by auto

theorem currentState_provenance_witness:
  "currentState (fst (run example_funs [Invoke ''toggle'' [], Handle (JObj 15), Invoke ''missing'' []]
       \<lparr>currentState = JObj 2\<rparr>
       \<lparr>objects = example_heap(0 := [''offEntry'' \<mapsto> JBool True]),
        trace = [Assign (JObj 2), Call (JObj 13) (JObj 2) []]\<rparr>))
     \<in> {JNull, JObj 2} \<union>
       set (returned example_funs [Invoke ''toggle'' [], Handle (JObj 15), Invoke ''missing'' []]
         \<lparr>currentState = JObj 2\<rparr>
         \<lparr>objects = example_heap(0 := [''offEntry'' \<mapsto> JBool True]),
          trace = [Assign (JObj 2), Call (JObj 13) (JObj 2) []]\<rparr>)"
  using currentState_provenance [OF toggle_start] .

section \<open>The toggle scenario\<close>

text \<open>
  The scenario of the specification, run on the model: from \<^verbatim>\<open>Off\<close>, \<^verbatim>\<open>toggle\<close> enters
  \<^verbatim>\<open>On\<close> (no \<^verbatim>\<open>exit\<close> on \<^verbatim>\<open>Off\<close>), \<^verbatim>\<open>toggle\<close> again leaves \<^verbatim>\<open>On\<close> and enters \<^verbatim>\<open>Off\<close>, and
  an event without handler changes nothing.
\<close>

lemma toggle_session:
  "run example_funs [Invoke ''toggle'' [], Invoke ''toggle'' [], Invoke ''missing'' []]
       \<lparr>currentState = JObj 2\<rparr> example_world =
     (\<lparr>currentState = JObj 2\<rparr>,
      \<lparr>objects = example_heap(0 := [''onEntry'' \<mapsto> JBool True, ''onExit'' \<mapsto> JBool True,
                                     ''offEntry'' \<mapsto> JBool True]),
       trace = [Call (JObj 14) (JObj 2) [], Assign (JObj 1), Call (JObj 10) (JObj 1) [],
                Call (JObj 12) (JObj 1) [], Call (JObj 11) (JObj 1) [], Assign (JObj 2),
                Call (JObj 13) (JObj 2) []]\<rparr>)"
  by (simp add: invoke_def handle_def dispatch_def get_def call_hook_def member_def call_apply_def
      call_def assigned_def strict_neq_def strict_eq_def example_world_def example_heap_def
      example_funs_def mark_def go_def)

lemma toggle_returned:
  "returned example_funs [Invoke ''toggle'' [], Invoke ''toggle'' [], Invoke ''missing'' []]
       \<lparr>currentState = JObj 2\<rparr> example_world = [JObj 1, JObj 2, JObj 2]"
  by (simp add: invoke_def handle_def dispatch_def get_def call_hook_def member_def call_apply_def
      call_def assigned_def strict_neq_def strict_eq_def example_world_def example_heap_def
      example_funs_def mark_def go_def)

end
